theory Spec2Isabelle
  imports Main "HOL-Library.Word"
begin

section \<open>crypto11: token lookup, Configure and Close (crypto11.go)\<close>

text \<open>
  The development embeds the three operations of \<^verbatim>\<open>crypto11.go\<close> that touch the PKCS\#11
  library: \<^verbatim>\<open>findToken\<close>, \<^verbatim>\<open>Configure\<close> and \<^verbatim>\<open>Context.Close\<close>.

  Go's \<^verbatim>\<open>uint\<close> and \<^verbatim>\<open>int\<close> are taken at 64 bits. Both are 64-bit words; an \<^verbatim>\<open>int\<close> is read
  with \<open>sint\<close>, a \<^verbatim>\<open>uint\<close> with \<open>uint\<close>, and the conversion \<^verbatim>\<open>uint(x)\<close> of an \<^verbatim>\<open>int\<close> keeps the
  bits. \<^verbatim>\<open>time.Duration\<close> is an \<^verbatim>\<open>int64\<close>.
\<close>

subsection \<open>Data\<close>

type_synonym go_uint = "64 word"
type_synonym go_int = "64 word"
type_synonym Duration = "64 word"

text \<open>A loaded library (\<^verbatim>\<open>*pkcs11.Ctx\<close>) and a \<^verbatim>\<open>*PKCS11Config\<close> are addresses.\<close>

type_synonym Ctx = nat
type_synonym addr = nat

text \<open>
  \<^verbatim>\<open>errors.New\<close> is called once for each of the five package variables, so each is one fixed
  value that a caller compares with \<^verbatim>\<open>==\<close>. \<open>Pkcs11Error\<close> is the error type of the PKCS\#11
  binding (a return code of the token protocol). \<open>Errorf\<close> is a value built by \<^verbatim>\<open>fmt.Errorf\<close>
  at the moment of the failure, from a format string and its integer arguments.
\<close>

datatype error =
    ErrTokenNotFound
  | ErrKeyNotFound
  | ErrCannotOpenPKCS11
  | ErrCannotGetRandomData
  | ErrUnsupportedKeyType
  | Pkcs11Error go_uint
  | Errorf string "int list"

definition DefaultMaxSessions :: go_int where
  "DefaultMaxSessions = 1024"

text \<open>The package-level error variables, lines 99 to 112.\<close>

definition sentinels :: "error list" where
  "sentinels = [ErrTokenNotFound, ErrKeyNotFound, ErrCannotOpenPKCS11,
                ErrCannotGetRandomData, ErrUnsupportedKeyType]"

definition is_sentinel :: "error \<Rightarrow> bool" where
  "is_sentinel e = (e \<in> set sentinels)"

text \<open>The fields of \<^verbatim>\<open>pkcs11.TokenInfo\<close> that the file reads.\<close>

record TokenInfo =
  Label :: string
  SerialNumber :: string
  MaxRwSessionCount :: go_uint

record PKCS11Config =
  Path :: string
  TokenSerial :: string
  TokenLabel :: string
  Pin :: string
  MaxSessions :: go_int
  IdleTimeout :: Duration
  PoolWaitTimeout :: Duration

text \<open>
  The pool belongs to \<^verbatim>\<open>vitess/go/pools\<close>. Of a pool the model keeps the three settings
  its constructor takes after the factory function: initial capacity, maximum capacity, idle
  timeout. The factory function itself (\<^verbatim>\<open>instance.resourcePoolFactoryFunc\<close>) is defined in
  another file of the package and is left out.
\<close>

record ResourcePool =
  capacity :: go_int
  maxCap :: go_int
  idleTimeout :: Duration

text \<open>
  A \<^verbatim>\<open>Context\<close> as \<^verbatim>\<open>Configure\<close> returns it, with every field set. \<open>cfg\<close> is the pointer
  to the configuration, not a copy of it.
\<close>

record Context =
  ctx :: Ctx
  cfg :: addr
  token :: TokenInfo
  slot :: go_uint
  pool :: ResourcePool

subsection \<open>The library and the world around the calls\<close>

text \<open>
  The PKCS\#11 binding and the pool constructor are parameters: what each call answers.
  \<open>New\<close> gives \<open>None\<close> for Go's \<^verbatim>\<open>nil\<close>; \<open>Initialize\<close> and \<open>Finalize\<close> give \<open>None\<close> for a
  \<^verbatim>\<open>nil\<close> error; \<open>NewResourcePool\<close> gives \<open>None\<close> when the constructor panics instead of
  returning.
\<close>

record pkcs11 =
  New :: "string \<Rightarrow> Ctx option"
  Initialize :: "Ctx \<Rightarrow> error option"
  GetSlotList :: "Ctx \<Rightarrow> bool \<Rightarrow> error + go_uint list"
  GetTokenInfo :: "Ctx \<Rightarrow> go_uint \<Rightarrow> error + TokenInfo"
  Finalize :: "Ctx \<Rightarrow> error option"
  NewResourcePool :: "go_int \<Rightarrow> go_int \<Rightarrow> Duration \<Rightarrow> ResourcePool option"

text \<open>Every call that leaves the package is an event, in the order the calls are made.\<close>

datatype logarg = ArgString string | ArgError error

datatype event =
    CallNew string
  | CallInitialize Ctx
  | CallGetSlotList Ctx bool
  | CallGetTokenInfo Ctx go_uint
  | CallNewResourcePool go_int go_int Duration
  | CallPoolClose ResourcePool
  | CallFinalize Ctx
  | CallDestroy Ctx
  | LogPrintf string "logarg list"

text \<open>
  The state threaded through the operations: the configuration structs on the heap, by
  address, and the events so far.
\<close>

record state =
  cfgs :: "addr \<Rightarrow> PKCS11Config"
  calls :: "event list"

definition emit :: "event \<Rightarrow> state \<Rightarrow> state" where
  "emit e s = s\<lparr>calls := calls s @ [e]\<rparr>"

datatype panic = NilPointerDereference | PoolConstructorPanic

datatype 'a outcome = Panics panic | Returns 'a

subsection \<open>findToken\<close>

text \<open>
  The loop over \<^verbatim>\<open>slots\<close>. Each iteration queries the token of the slot; an error of the
  query is returned at once, then the serial number is compared, then the label. Go returns
  \<^verbatim>\<open>(0, nil, err)\<close> on failure and \<^verbatim>\<open>(slot, &tokenInfo, nil)\<close> on success.
\<close>

fun findToken ::
  "pkcs11 \<Rightarrow> Ctx \<Rightarrow> go_uint list \<Rightarrow> string \<Rightarrow> string \<Rightarrow> state
     \<Rightarrow> (error + go_uint \<times> TokenInfo) \<times> state" where
  "findToken lib c [] serial label s = (Inl ErrTokenNotFound, s)"
| "findToken lib c (sl # slots) serial label s =
     (let s' = emit (CallGetTokenInfo c sl) s in
      (case GetTokenInfo lib c sl of
         Inl err \<Rightarrow> (Inl err, s')
       | Inr tokenInfo \<Rightarrow>
           (if SerialNumber tokenInfo = serial then (Inr (sl, tokenInfo), s')
            else if Label tokenInfo = label then (Inr (sl, tokenInfo), s')
            else findToken lib c slots serial label s')))"

subsection \<open>Configure\<close>

definition session_limit_format :: string where
  "session_limit_format =
     ''crypto11: provided max sessions value (%d) exceeds max value the token supports (%d)''"

text \<open>
  \<^verbatim>\<open>config\<close> is a pointer: \<open>None\<close> is \<^verbatim>\<open>nil\<close>, and reading a field through it panics. The
  default is written through the pointer, into the caller's struct. Every later read of
  \<^verbatim>\<open>config\<close> or \<^verbatim>\<open>instance.cfg\<close> is a read of that struct; nothing after line 215
  writes to it, so \<open>conf\<close> is what those reads see.
\<close>

definition Configure ::
  "pkcs11 \<Rightarrow> addr option \<Rightarrow> state \<Rightarrow> (error + Context) outcome \<times> state" where
  "Configure lib config s =
     (case config of
        None \<Rightarrow> (Panics NilPointerDereference, s)
      | Some p \<Rightarrow>
         (let s1 = (if MaxSessions (cfgs s p) = 0
                    then s\<lparr>cfgs := (cfgs s)(p := (cfgs s p)\<lparr>MaxSessions := DefaultMaxSessions\<rparr>)\<rparr>
                    else s);
              conf = cfgs s1 p;
              s2 = emit (CallNew (Path conf)) s1
          in
          (case New lib (Path conf) of
             None \<Rightarrow>
               (Returns (Inl ErrCannotOpenPKCS11),
                emit (LogPrintf ''Could not open PKCS#11 library: %s'' [ArgString (Path conf)]) s2)
           | Some c \<Rightarrow>
              (let s3 = emit (CallInitialize c) s2 in
               (case Initialize lib c of
                  Some err \<Rightarrow>
                    (Returns (Inl err),
                     emit (LogPrintf ''Failed to initialize PKCS#11 library: %s'' [ArgError err]) s3)
                | None \<Rightarrow>
                   (let s4 = emit (CallGetSlotList c True) s3 in
                    (case GetSlotList lib c True of
                       Inl err \<Rightarrow>
                         (Returns (Inl err),
                          emit (LogPrintf ''Failed to list PKCS#11 Slots: %s'' [ArgError err]) s4)
                     | Inr slots \<Rightarrow>
                        (case findToken lib c slots (TokenSerial conf) (TokenLabel conf) s4 of
                           (Inl err, s5) \<Rightarrow>
                             (Returns (Inl err),
                              emit (LogPrintf ''Failed to find Token in any Slot: %s''
                                      [ArgError err]) s5)
                         | (Inr (sl, tok), s5) \<Rightarrow>
                             (if 0 < MaxRwSessionCount tok
                                 \<and> MaxRwSessionCount tok < MaxSessions conf
                              then
                                (Returns (Inl (Errorf session_limit_format
                                   [sint (MaxSessions conf), uint (MaxRwSessionCount tok)])), s5)
                              else
                               (let s6 = emit (CallNewResourcePool (MaxSessions conf)
                                                 (MaxSessions conf) (IdleTimeout conf)) s5 in
                                (case NewResourcePool lib (MaxSessions conf) (MaxSessions conf)
                                        (IdleTimeout conf) of
                                   None \<Rightarrow> (Panics PoolConstructorPanic, s6)
                                 | Some pl \<Rightarrow>
                                     (Returns (Inr \<lparr>ctx = c, cfg = p, token = tok, slot = sl,
                                                     pool = pl\<rparr>), s6))))))))))))"

subsection \<open>Close\<close>

text \<open>
  \<^verbatim>\<open>c.pool.Close()\<close>, then \<^verbatim>\<open>c.ctx.Finalize()\<close>; an error of \<^verbatim>\<open>Finalize\<close> is returned
  before \<^verbatim>\<open>c.ctx.Destroy()\<close> is reached.
\<close>

definition Close :: "pkcs11 \<Rightarrow> Context \<Rightarrow> state \<Rightarrow> error option \<times> state" where
  "Close lib c s =
     (let s1 = emit (CallPoolClose (pool c)) s;
          s2 = emit (CallFinalize (ctx c)) s1
      in (case Finalize lib (ctx c) of
            Some err \<Rightarrow> (Some err, s2)
          | None \<Rightarrow> (None, emit (CallDestroy (ctx c)) s2)))"

subsection \<open>Notions used in the statements\<close>

text \<open>
  The token of slot \<open>x\<close> can be read and has neither the serial number nor the label asked
  for: the loop of \<^verbatim>\<open>findToken\<close> goes on to the next slot.
\<close>

definition no_match :: "pkcs11 \<Rightarrow> Ctx \<Rightarrow> string \<Rightarrow> string \<Rightarrow> go_uint \<Rightarrow> bool" where
  "no_match lib c serial label x =
     (case GetTokenInfo lib c x of
        Inl err \<Rightarrow> False
      | Inr t \<Rightarrow> SerialNumber t \<noteq> serial \<and> Label t \<noteq> label)"

text \<open>The value of \<^verbatim>\<open>config.MaxSessions\<close> after lines 214 to 216.\<close>

definition effective_max :: "PKCS11Config \<Rightarrow> go_int" where
  "effective_max conf = (if MaxSessions conf = 0 then DefaultMaxSessions else MaxSessions conf)"

subsection \<open>Concrete libraries, tokens and configurations\<close>

text \<open>
  Two slots, 0 and 1, holding the tokens with serial numbers A and B and labels x and y; the
  second token advertises at most 1000 read-write sessions, the first no limit. The pool
  constructor of this library returns the pool with the arguments it was given.
\<close>

definition token_A :: TokenInfo where
  "token_A = \<lparr>Label = ''x'', SerialNumber = ''A'', MaxRwSessionCount = 0\<rparr>"

definition token_B :: TokenInfo where
  "token_B = \<lparr>Label = ''y'', SerialNumber = ''B'', MaxRwSessionCount = 1000\<rparr>"

definition build_pool :: "go_int \<Rightarrow> go_int \<Rightarrow> Duration \<Rightarrow> ResourcePool option" where
  "build_pool c m t = Some \<lparr>capacity = c, maxCap = m, idleTimeout = t\<rparr>"

definition two_slots :: pkcs11 where
  "two_slots =
     \<lparr>New = (\<lambda>path. Some 1),
      Initialize = (\<lambda>c. None),
      GetSlotList = (\<lambda>c present. Inr [0, 1]),
      GetTokenInfo = (\<lambda>c sl. if sl = 0 then Inr token_A
                               else if sl = 1 then Inr token_B
                               else Inl (Pkcs11Error 3)),
      Finalize = (\<lambda>c. None),
      NewResourcePool = build_pool\<rparr>"

definition first_slot_fails :: pkcs11 where
  "first_slot_fails =
     two_slots\<lparr>GetTokenInfo := (\<lambda>c sl. if sl = 0 then Inl (Pkcs11Error 48) else Inr token_B)\<rparr>"

definition failing_initialize :: pkcs11 where
  "failing_initialize = two_slots\<lparr>Initialize := (\<lambda>c. Some (Pkcs11Error 5))\<rparr>"

definition failing_finalize :: pkcs11 where
  "failing_finalize = two_slots\<lparr>Finalize := (\<lambda>c. Some (Pkcs11Error 5))\<rparr>"

definition config_0 :: PKCS11Config where
  "config_0 = \<lparr>Path = ''libsofthsm2.so'', TokenSerial = ''A'', TokenLabel = [],
               Pin = ''1234'', MaxSessions = 0, IdleTimeout = 30, PoolWaitTimeout = 10\<rparr>"

definition config_2000 :: PKCS11Config where
  "config_2000 = config_0\<lparr>TokenSerial := ''B'', MaxSessions := 2000\<rparr>"

definition config_300 :: PKCS11Config where
  "config_300 = config_0\<lparr>MaxSessions := 300\<rparr>"

definition config_B :: PKCS11Config where
  "config_B = config_0\<lparr>TokenSerial := ''B''\<rparr>"

definition config_Z :: PKCS11Config where
  "config_Z = config_0\<lparr>TokenSerial := ''Z'', TokenLabel := ''z''\<rparr>"

definition state_of :: "PKCS11Config \<Rightarrow> state" where
  "state_of conf = \<lparr>cfgs = (\<lambda>a. conf), calls = []\<rparr>"

definition context_0 :: Context where
  "context_0 = \<lparr>ctx = 1, cfg = 0, token = token_A, slot = 0,
                 pool = \<lparr>capacity = 1024, maxCap = 1024, idleTimeout = 30\<rparr>\<rparr>"

section \<open>Properties\<close>

subsection \<open>Auxiliary facts\<close>

lemma emit_calls: "calls (emit e s) = calls s @ [e]" by (simp add: emit_def)
lemma emit_cfgs: "cfgs (emit e s) = cfgs s" by (simp add: emit_def)

lemma findToken_skip:
  "\<forall>y\<in>set pre. no_match lib c serial label y \<Longrightarrow>
   findToken lib c (pre @ rest) serial label s =
   findToken lib c rest serial label (s\<lparr>calls := calls s @ map (CallGetTokenInfo c) pre\<rparr>)"
proof (induction pre arbitrary: s)
  case Nil
  then show ?case by simp
next
  case (Cons y pre)
  then show ?case
    by (auto simp: no_match_def emit_def Let_def split: sum.splits)
qed

lemma findToken_hit:
  assumes "\<forall>y\<in>set pre. no_match lib c serial label y"
      and "GetTokenInfo lib c x = Inr t"
      and "SerialNumber t = serial \<or> Label t = label"
  shows "findToken lib c (pre @ x # rest) serial label s =
         (Inr (x, t), s\<lparr>calls := calls s @ map (CallGetTokenInfo c) (pre @ [x])\<rparr>)"
  using assms by (auto simp: findToken_skip emit_def Let_def)

lemma findToken_miss:
  assumes "\<forall>y\<in>set slots. no_match lib c serial label y"
  shows "findToken lib c slots serial label s =
         (Inl ErrTokenNotFound, s\<lparr>calls := calls s @ map (CallGetTokenInfo c) slots\<rparr>)"
  using findToken_skip[OF assms, of "[]" s] by simp

lemma findToken_err:
  assumes "\<forall>y\<in>set pre. no_match lib c serial label y"
      and "GetTokenInfo lib c x = Inl e"
  shows "findToken lib c (pre @ x # rest) serial label s =
         (Inl e, s\<lparr>calls := calls s @ map (CallGetTokenInfo c) (pre @ [x])\<rparr>)"
  using assms by (auto simp: findToken_skip emit_def Let_def)

lemma findToken_cfgs: "cfgs (snd (findToken lib c slots serial label s)) = cfgs s"
  by (induction slots arbitrary: s) (auto simp: emit_def Let_def split: sum.splits)

lemma findToken_fst_state:
  "fst (findToken lib c slots serial label s) = fst (findToken lib c slots serial label s')"
  by (induction slots arbitrary: s s') (auto simp: Let_def split: sum.splits)

lemma Configure_found:
  assumes "New lib (Path (cfgs s p)) = Some c"
      and "Initialize lib c = None"
      and "GetSlotList lib c True = Inr slots"
      and "fst (findToken lib c slots (TokenSerial (cfgs s p)) (TokenLabel (cfgs s p)) s)
             = Inr (sl, tok)"
  shows "fst (Configure lib (Some p) s) =
         (if 0 < MaxRwSessionCount tok \<and> MaxRwSessionCount tok < effective_max (cfgs s p)
          then Returns (Inl (Errorf session_limit_format
                 [sint (effective_max (cfgs s p)), uint (MaxRwSessionCount tok)]))
          else (case NewResourcePool lib (effective_max (cfgs s p)) (effective_max (cfgs s p))
                       (IdleTimeout (cfgs s p)) of
                  None \<Rightarrow> Panics PoolConstructorPanic
                | Some pl \<Rightarrow> Returns (Inr \<lparr>ctx = c, cfg = p, token = tok, slot = sl,
                                           pool = pl\<rparr>)))"
proof -
  let ?s1 = "if MaxSessions (cfgs s p) = 0
             then s\<lparr>cfgs := (cfgs s)(p := (cfgs s p)\<lparr>MaxSessions := DefaultMaxSessions\<rparr>)\<rparr>
             else s"
  let ?conf = "cfgs ?s1 p"
  let ?s4 = "emit (CallGetSlotList c True) (emit (CallInitialize c) (emit (CallNew (Path ?conf)) ?s1))"
  have conf: "Path ?conf = Path (cfgs s p)" "TokenSerial ?conf = TokenSerial (cfgs s p)"
    "TokenLabel ?conf = TokenLabel (cfgs s p)" "IdleTimeout ?conf = IdleTimeout (cfgs s p)"
    "MaxSessions ?conf = effective_max (cfgs s p)"
    by (simp_all add: effective_max_def)
  obtain r s5 where ft: "findToken lib c slots (TokenSerial (cfgs s p)) (TokenLabel (cfgs s p)) ?s4 = (r, s5)"
    by (cases "findToken lib c slots (TokenSerial (cfgs s p)) (TokenLabel (cfgs s p)) ?s4")
  have "r = Inr (sl, tok)"
    using ft assms(4) findToken_fst_state[of lib c slots _ _ ?s4 s] by (metis fst_conv)
  with ft have ft': "findToken lib c slots (TokenSerial (cfgs s p)) (TokenLabel (cfgs s p)) ?s4 = (Inr (sl, tok), s5)"
    by simp
  show ?thesis
    unfolding Configure_def
    using assms(1-3) ft'
    by (simp add: Let_def conf split: option.splits del: findToken.simps)
qed


lemma sint_le_uint: "sint (n::'a::len word) \<le> uint n"
proof -
  have "- (2 ^ (LENGTH('a) - 1)) \<le> (0::int)" by simp
  also have "0 \<le> uint n" by simp
  finally have "signed_take_bit (LENGTH('a) - 1) (uint n) \<le> uint n"
    by (simp only: signed_take_bit_int_less_eq_self_iff)
  then show ?thesis by (simp add: sint_uint)
qed

lemma exceeds_unsigned:
  fixes m n :: "'a::len word"
  assumes "uint m < sint n"
  shows "m < n"
  using assms sint_le_uint [of n] by (simp add: word_less_def)

lemma Configure_cfgs:
  "cfgs (snd (Configure lib (Some p) s)) =
   (cfgs s)(p := (cfgs s p)\<lparr>MaxSessions := effective_max (cfgs s p)\<rparr>)"
proof -
  have ft: "\<And>c slots a b t r s5. findToken lib c slots a b t = (r, s5) \<Longrightarrow> cfgs s5 = cfgs t"
    using findToken_cfgs by (metis snd_conv)
  show ?thesis
    unfolding Configure_def
    by (auto simp: Let_def emit_def effective_max_def dest!: ft
             split: option.splits sum.splits prod.splits simp del: findToken.simps)
qed

lemma Configure_cfg_field:
  "fst (Configure lib (Some p) s) = Returns (Inr cx) \<Longrightarrow> cfg cx = p"
  unfolding Configure_def
  by (auto simp: Let_def split: option.splits sum.splits prod.splits if_splits
           simp del: findToken.simps)

lemma two_slots_found_A:
  "fst (findToken two_slots 1 [0, 1] (TokenSerial config_0) (TokenLabel config_0) s)
     = Inr (0, token_A)"
  by (simp add: two_slots_def config_0_def token_A_def Let_def)

lemma two_slots_found_B:
  "fst (findToken two_slots 1 [0, 1] ''B'' [] s) = Inr (1, token_B)"
  by (simp add: two_slots_def token_A_def token_B_def Let_def)

lemma Configure_2000_over_1000:
  "fst (Configure two_slots (Some 0) (state_of config_2000)) =
     Returns (Inl (Errorf session_limit_format [2000, 1000]))"
proof -
  have conf: "cfgs (state_of config_2000) 0 = config_2000"
    "TokenSerial config_2000 = ''B''" "TokenLabel config_2000 = []"
    "effective_max config_2000 = 2000"
    by (simp_all add: state_of_def config_2000_def config_0_def effective_max_def)
  have a: "New two_slots (Path (cfgs (state_of config_2000) 0)) = Some 1"
    "Initialize two_slots 1 = None" "GetSlotList two_slots 1 True = Inr [0, 1]"
    by (simp_all add: two_slots_def)
  have f: "fst (findToken two_slots 1 [0, 1] (TokenSerial (cfgs (state_of config_2000) 0))
             (TokenLabel (cfgs (state_of config_2000) 0)) (state_of config_2000)) = Inr (1, token_B)"
    by (simp only: conf two_slots_found_B)
  show ?thesis
    using Configure_found [OF a f] by (simp add: conf token_B_def)
qed

lemma findToken_Inl_cases:
  "fst (findToken lib c slots serial label s) = Inl e \<Longrightarrow>
   ((\<forall>y\<in>set slots. no_match lib c serial label y) \<and> e = ErrTokenNotFound)
   \<or> (\<exists>pre x rest. slots = pre @ x # rest
         \<and> (\<forall>y\<in>set pre. no_match lib c serial label y)
         \<and> GetTokenInfo lib c x = Inl e)"
proof (induction slots arbitrary: s)
  case Nil
  then show ?case by simp
next
  case (Cons a slots)
  show ?case
  proof (cases "GetTokenInfo lib c a")
    case (Inl err)
    with Cons.prems have "err = e" by (simp add: Let_def)
    with Inl have "a # slots = [] @ a # slots \<and> (\<forall>y\<in>set []. no_match lib c serial label y)
        \<and> GetTokenInfo lib c a = Inl e" by simp
    then show ?thesis by blast
  next
    case (Inr t)
    with Cons.prems have nm: "no_match lib c serial label a"
      and rec: "fst (findToken lib c slots serial label (emit (CallGetTokenInfo c a) s)) = Inl e"
      by (auto simp: Let_def no_match_def split: if_splits)
    from Cons.IH [OF rec] show ?thesis
    proof
      assume "(\<forall>y\<in>set slots. no_match lib c serial label y) \<and> e = ErrTokenNotFound"
      with nm show ?thesis by simp
    next
      assume "\<exists>pre x rest. slots = pre @ x # rest
         \<and> (\<forall>y\<in>set pre. no_match lib c serial label y)
         \<and> GetTokenInfo lib c x = Inl e"
      then obtain pre x rest where "slots = pre @ x # rest"
        "\<forall>y\<in>set pre. no_match lib c serial label y" "GetTokenInfo lib c x = Inl e"
        by blast
      with nm have "a # slots = (a # pre) @ x # rest
        \<and> (\<forall>y\<in>set (a # pre). no_match lib c serial label y)
        \<and> GetTokenInfo lib c x = Inl e" by simp
      then show ?thesis by blast
    qed
  qed
qed

lemma findToken_Inr_cases:
  "fst (findToken lib c slots serial label s) = Inr (sl, tok) \<Longrightarrow>
   \<exists>pre rest. slots = pre @ sl # rest
       \<and> (\<forall>y\<in>set pre. no_match lib c serial label y)
       \<and> GetTokenInfo lib c sl = Inr tok
       \<and> (SerialNumber tok = serial \<or> Label tok = label)"
proof (induction slots arbitrary: s)
  case Nil
  then show ?case by simp
next
  case (Cons a slots)
  show ?case
  proof (cases "GetTokenInfo lib c a")
    case (Inl err)
    with Cons.prems show ?thesis by (simp add: Let_def)
  next
    case (Inr t)
    show ?thesis
    proof (cases "SerialNumber t = serial \<or> Label t = label")
      case True
      with Inr Cons.prems have "a = sl" "t = tok" by (auto simp: Let_def split: if_splits)
      with Inr True have "a # slots = [] @ sl # slots
        \<and> (\<forall>y\<in>set []. no_match lib c serial label y)
        \<and> GetTokenInfo lib c sl = Inr tok
        \<and> (SerialNumber tok = serial \<or> Label tok = label)" by simp
      then show ?thesis by blast
    next
      case False
      with Inr Cons.prems have nm: "no_match lib c serial label a"
        and rec: "fst (findToken lib c slots serial label (emit (CallGetTokenInfo c a) s))
                    = Inr (sl, tok)"
        by (auto simp: Let_def no_match_def)
      from Cons.IH [OF rec] obtain pre rest where "slots = pre @ sl # rest"
        "\<forall>y\<in>set pre. no_match lib c serial label y" "GetTokenInfo lib c sl = Inr tok"
        "SerialNumber tok = serial \<or> Label tok = label"
        by blast
      with nm have "a # slots = (a # pre) @ sl # rest
        \<and> (\<forall>y\<in>set (a # pre). no_match lib c serial label y)
        \<and> GetTokenInfo lib c sl = Inr tok
        \<and> (SerialNumber tok = serial \<or> Label tok = label)" by simp
      then show ?thesis by blast
    qed
  qed
qed

lemma Configure_fst:
  "fst (Configure lib (Some p) s) =
     (case New lib (Path (cfgs s p)) of
        None \<Rightarrow> Returns (Inl ErrCannotOpenPKCS11)
      | Some c \<Rightarrow>
         (case Initialize lib c of
            Some err \<Rightarrow> Returns (Inl err)
          | None \<Rightarrow>
             (case GetSlotList lib c True of
                Inl err \<Rightarrow> Returns (Inl err)
              | Inr slots \<Rightarrow>
                 (case fst (findToken lib c slots (TokenSerial (cfgs s p))
                              (TokenLabel (cfgs s p)) s) of
                    Inl err \<Rightarrow> Returns (Inl err)
                  | Inr (sl, tok) \<Rightarrow>
                     (if 0 < MaxRwSessionCount tok
                         \<and> MaxRwSessionCount tok < effective_max (cfgs s p)
                      then Returns (Inl (Errorf session_limit_format
                             [sint (effective_max (cfgs s p)), uint (MaxRwSessionCount tok)]))
                      else (case NewResourcePool lib (effective_max (cfgs s p))
                                   (effective_max (cfgs s p)) (IdleTimeout (cfgs s p)) of
                              None \<Rightarrow> Panics PoolConstructorPanic
                            | Some pl \<Rightarrow> Returns (Inr \<lparr>ctx = c, cfg = p, token = tok,
                                                       slot = sl, pool = pl\<rparr>)))))))"
proof -
  let ?s1 = "if MaxSessions (cfgs s p) = 0
             then s\<lparr>cfgs := (cfgs s)(p := (cfgs s p)\<lparr>MaxSessions := DefaultMaxSessions\<rparr>)\<rparr>
             else s"
  let ?conf = "cfgs ?s1 p"
  have conf: "Path ?conf = Path (cfgs s p)" "TokenSerial ?conf = TokenSerial (cfgs s p)"
    "TokenLabel ?conf = TokenLabel (cfgs s p)" "IdleTimeout ?conf = IdleTimeout (cfgs s p)"
    "MaxSessions ?conf = effective_max (cfgs s p)"
    by (simp_all add: effective_max_def)
  show ?thesis
  proof (cases "New lib (Path (cfgs s p))")
    case None
    then show ?thesis
      unfolding Configure_def by (simp add: Let_def conf del: findToken.simps)
  next
    case (Some c)
    note new = this
    show ?thesis
    proof (cases "Initialize lib c")
      case (Some err)
      with new show ?thesis
        unfolding Configure_def by (simp add: Let_def conf del: findToken.simps)
    next
      case None
      note init = this
      show ?thesis
      proof (cases "GetSlotList lib c True")
        case (Inl err)
        with new init show ?thesis
          unfolding Configure_def by (simp add: Let_def conf del: findToken.simps)
      next
        case (Inr slots)
        note sl = this
        let ?s4 = "emit (CallGetSlotList c True) (emit (CallInitialize c)
                     (emit (CallNew (Path ?conf)) ?s1))"
        obtain r s5 where ft: "findToken lib c slots (TokenSerial (cfgs s p))
                                 (TokenLabel (cfgs s p)) ?s4 = (r, s5)"
          by (cases "findToken lib c slots (TokenSerial (cfgs s p)) (TokenLabel (cfgs s p)) ?s4")
        have r: "fst (findToken lib c slots (TokenSerial (cfgs s p)) (TokenLabel (cfgs s p)) s) = r"
          using ft findToken_fst_state [of lib c slots _ _ s ?s4] by simp
        show ?thesis
        proof (cases r)
          case (Inl err)
          with new init sl ft r show ?thesis
            unfolding Configure_def by (simp add: Let_def conf del: findToken.simps)
        next
          case (Inr found)
          then obtain sl' tok where "r = Inr (sl', tok)" by (cases found) simp
          with r have "fst (findToken lib c slots (TokenSerial (cfgs s p))
                         (TokenLabel (cfgs s p)) s) = Inr (sl', tok)" by simp
          from Configure_found [OF new init sl this] new init sl this
          show ?thesis by simp
        qed
      qed
    qed
  qed
qed

subsection \<open>Token lookup\<close>

text \<open>
  C1. Over slots whose token can be read, \<^verbatim>\<open>findToken\<close> returns the first slot whose token
  has the requested serial number or the requested label, whatever follows it in the list; the
  serial number is compared first, and either comparison ends the search, so an earlier slot
  that matches by label only is returned before a later slot that matches by serial number.
  When no slot matches, the result is \<open>ErrTokenNotFound\<close>. For the slots
  [{serial A, label x}, {serial B, label y}]: serial B with a label other than x gives the
  second slot, label x gives the first slot whatever the serial number, and serial Z with
  label z gives \<open>ErrTokenNotFound\<close>.
\<close>

theorem findToken_first_match:
  "(\<forall>pre x rest t.
      slots = pre @ x # rest \<longrightarrow>
      (\<forall>y\<in>set pre. no_match lib c serial label y) \<longrightarrow>
      GetTokenInfo lib c x = Inr t \<longrightarrow>
      (SerialNumber t = serial \<or> Label t = label) \<longrightarrow>
      fst (findToken lib c slots serial label s) = Inr (x, t))
   \<and> ((\<forall>y\<in>set slots. no_match lib c serial label y) \<longrightarrow>
      fst (findToken lib c slots serial label s) = Inl ErrTokenNotFound)
   \<and> (\<forall>l. l \<noteq> ''x'' \<longrightarrow> fst (findToken two_slots c [0, 1] ''B'' l s) = Inr (1, token_B))
   \<and> (\<forall>sn. fst (findToken two_slots c [0, 1] sn ''x'' s) = Inr (0, token_A))
   \<and> fst (findToken two_slots c [0, 1] ''Z'' ''z'' s) = Inl ErrTokenNotFound"
proof (intro conjI allI impI)
  fix pre x rest t
  assume "slots = pre @ x # rest" "\<forall>y\<in>set pre. no_match lib c serial label y"
    "GetTokenInfo lib c x = Inr t" "SerialNumber t = serial \<or> Label t = label"
  then show "fst (findToken lib c slots serial label s) = Inr (x, t)"
    by (simp add: findToken_hit)
next
  assume "\<forall>y\<in>set slots. no_match lib c serial label y"
  then show "fst (findToken lib c slots serial label s) = Inl ErrTokenNotFound"
    by (simp add: findToken_miss)
next
  fix l :: string
  assume "l \<noteq> ''x''"
  then show "fst (findToken two_slots c [0, 1] ''B'' l s) = Inr (1, token_B)"
    by (simp add: two_slots_def token_A_def token_B_def Let_def)
next
  fix sn
  show "fst (findToken two_slots c [0, 1] sn ''x'' s) = Inr (0, token_A)"
    by (simp add: two_slots_def token_A_def Let_def)
next
  show "fst (findToken two_slots c [0, 1] ''Z'' ''z'' s) = Inl ErrTokenNotFound"
    by (simp add: two_slots_def token_A_def token_B_def Let_def)
qed

theorem findToken_first_match_witness:
  "no_match two_slots 1 ''B'' ''q'' 0
   \<and> GetTokenInfo two_slots 1 1 = Inr token_B
   \<and> SerialNumber token_B = ''B''
   \<and> fst (findToken two_slots 1 [0, 1] ''B'' ''q'' (state_of config_0)) = Inr (1, token_B)
   \<and> no_match two_slots 1 ''Z'' ''z'' 0 \<and> no_match two_slots 1 ''Z'' ''z'' 1
   \<and> fst (findToken two_slots 1 [0, 1] ''Z'' ''z'' (state_of config_0)) = Inl ErrTokenNotFound"
proof -
  have n0: "no_match two_slots 1 ''B'' ''q'' 0"
    by (simp add: no_match_def two_slots_def token_A_def)
  have g1: "GetTokenInfo two_slots 1 1 = Inr token_B"
    by (simp add: two_slots_def)
  have s1: "SerialNumber token_B = ''B''"
    by (simp add: token_B_def)
  have z: "no_match two_slots 1 ''Z'' ''z'' 0" "no_match two_slots 1 ''Z'' ''z'' 1"
    by (simp_all add: no_match_def two_slots_def token_A_def token_B_def)
  note th = findToken_first_match [of "[0, 1]" two_slots 1 "''B''" "''q''" "state_of config_0"]
  note tz = findToken_first_match [of "[0, 1]" two_slots 1 "''Z''" "''z''" "state_of config_0"]
  from th have "fst (findToken two_slots 1 [0, 1] ''B'' ''q'' (state_of config_0)) = Inr (1, token_B)"
    using n0 g1 s1 by simp
  moreover from tz z
  have "fst (findToken two_slots 1 [0, 1] ''Z'' ''z'' (state_of config_0)) = Inl ErrTokenNotFound"
    by simp
  ultimately show ?thesis using n0 g1 s1 z by simp
qed

text \<open>
  C10. When the query of a slot's token fails and no earlier slot matched, \<^verbatim>\<open>findToken\<close>
  returns that error at once: the result does not depend on the slots after it, none of them
  is queried, and the result is the error of the query, not \<open>ErrTokenNotFound\<close>.
\<close>

theorem findToken_metadata_error:
  assumes "\<forall>y\<in>set pre. no_match lib c serial label y"
      and "GetTokenInfo lib c x = Inl e"
  shows "findToken lib c (pre @ x # rest) serial label s =
         (Inl e, s\<lparr>calls := calls s @ map (CallGetTokenInfo c) (pre @ [x])\<rparr>)"
  using assms by (rule findToken_err)

theorem findToken_metadata_error_witness:
  "GetTokenInfo first_slot_fails 1 0 = Inl (Pkcs11Error 48)
   \<and> GetTokenInfo first_slot_fails 1 1 = Inr token_B
   \<and> SerialNumber token_B = ''B''
   \<and> findToken first_slot_fails 1 [0, 1] ''B'' ''y'' (state_of config_0) =
       (Inl (Pkcs11Error 48), (state_of config_0)\<lparr>calls := [CallGetTokenInfo 1 0]\<rparr>)"
proof -
  have g: "GetTokenInfo first_slot_fails 1 0 = Inl (Pkcs11Error 48)"
    by (simp add: first_slot_fails_def)
  have "\<forall>y\<in>set ([]::go_uint list). no_match first_slot_fails 1 ''B'' ''y'' y"
    by simp
  from findToken_metadata_error [OF this g, of "[1]" "state_of config_0"]
  show ?thesis
    by (simp add: first_slot_fails_def token_B_def state_of_def)
qed

subsection \<open>Close\<close>

text \<open>
  C2, as stated, fails: when \<^verbatim>\<open>Finalize\<close> returns an error, \<^verbatim>\<open>Close\<close> returns it before
  \<^verbatim>\<open>Destroy\<close> is called. The pool has been closed, the library connection is not destroyed.
\<close>

theorem Close_finalize_error_skips_Destroy:
  "Close failing_finalize context_0 (state_of config_0) =
     (Some (Pkcs11Error 5),
      (state_of config_0)\<lparr>calls := [CallPoolClose (pool context_0), CallFinalize 1]\<rparr>)
   \<and> CallDestroy 1 \<notin> set (calls (snd (Close failing_finalize context_0 (state_of config_0))))"
  by (simp add: Close_def failing_finalize_def two_slots_def context_0_def state_of_def
                emit_def Let_def)

text \<open>
  C2, amended. \<^verbatim>\<open>Close\<close> closes the pool, then finalizes the library. When finalization
  succeeds it then destroys the library connection and returns no error. When finalization
  fails, the error is returned, after the pool was closed and without destroying the
  connection.
\<close>

theorem Close_order:
  "(Finalize lib (ctx c) = None \<longrightarrow>
      Close lib c s =
        (None, s\<lparr>calls := calls s @ [CallPoolClose (pool c), CallFinalize (ctx c),
                                        CallDestroy (ctx c)]\<rparr>))
   \<and> (\<forall>err. Finalize lib (ctx c) = Some err \<longrightarrow>
      Close lib c s =
        (Some err, s\<lparr>calls := calls s @ [CallPoolClose (pool c), CallFinalize (ctx c)]\<rparr>))"
  by (simp add: Close_def emit_def Let_def)

theorem Close_order_witness:
  "Finalize two_slots (ctx context_0) = None
   \<and> Close two_slots context_0 (state_of config_0) =
       (None, (state_of config_0)\<lparr>calls := [CallPoolClose (pool context_0), CallFinalize 1,
                                                CallDestroy 1]\<rparr>)
   \<and> Finalize failing_finalize (ctx context_0) = Some (Pkcs11Error 5)
   \<and> Close failing_finalize context_0 (state_of config_0) =
       (Some (Pkcs11Error 5),
        (state_of config_0)\<lparr>calls := [CallPoolClose (pool context_0), CallFinalize 1]\<rparr>)"
proof -
  have f: "Finalize two_slots (ctx context_0) = None"
    by (simp add: two_slots_def)
  have g: "Finalize failing_finalize (ctx context_0) = Some (Pkcs11Error 5)"
    by (simp add: failing_finalize_def)
  from Close_order [of two_slots context_0 "state_of config_0"]
       Close_order [of failing_finalize context_0 "state_of config_0"] f g
  show ?thesis
    by (simp add: context_0_def state_of_def)
qed

subsection \<open>Configure\<close>

text \<open>
  C8. Called with a \<^verbatim>\<open>nil\<close> configuration, \<^verbatim>\<open>Configure\<close> panics at the read of
  \<^verbatim>\<open>config.MaxSessions\<close>, before any call to the library and with nothing written: it
  returns neither an error nor a context.
\<close>

theorem Configure_nil_config:
  "Configure lib None s = (Panics NilPointerDereference, s)"
  by (simp add: Configure_def)

theorem Configure_nil_config_witness:
  "Configure two_slots None (state_of config_0) =
     (Panics NilPointerDereference, state_of config_0)
   \<and> calls (snd (Configure two_slots None (state_of config_0))) = []"
  using Configure_nil_config [of two_slots "state_of config_0"]
  by (simp add: state_of_def)

text \<open>
  C9. \<^verbatim>\<open>Configure\<close> writes through the pointer it was given. After the call, whatever its
  outcome, the caller's struct is the struct of before with \<^verbatim>\<open>MaxSessions\<close> replaced by
  1024 when it was 0, and otherwise unchanged; the structs at other addresses are untouched;
  and a returned context holds the same pointer in \<^verbatim>\<open>cfg\<close>.
\<close>

theorem Configure_mutates_config:
  "cfgs (snd (Configure lib (Some p) s)) p =
     (cfgs s p)\<lparr>MaxSessions := (if MaxSessions (cfgs s p) = 0 then 1024
                                   else MaxSessions (cfgs s p))\<rparr>
   \<and> (\<forall>q. q \<noteq> p \<longrightarrow> cfgs (snd (Configure lib (Some p) s)) q = cfgs s q)
   \<and> (\<forall>cx. fst (Configure lib (Some p) s) = Returns (Inr cx) \<longrightarrow> cfg cx = p)"
  by (simp add: Configure_cfgs Configure_cfg_field effective_max_def DefaultMaxSessions_def)

theorem Configure_mutates_config_witness:
  "fst (Configure two_slots (Some 0) (state_of config_0)) =
     Returns (Inr context_0)
   \<and> cfg context_0 = 0
   \<and> MaxSessions (cfgs (state_of config_0) 0) = 0
   \<and> cfgs (snd (Configure two_slots (Some 0) (state_of config_0))) 0 =
       config_0\<lparr>MaxSessions := 1024\<rparr>
   \<and> (2::nat) \<noteq> 0
   \<and> cfgs (snd (Configure two_slots (Some 0) (state_of config_0))) 2 = config_0"
proof -
  have conf: "cfgs (state_of config_0) 0 = config_0" "cfgs (state_of config_0) 2 = config_0"
    "effective_max config_0 = 1024" "IdleTimeout config_0 = 30" "MaxSessions config_0 = 0"
    by (simp_all add: state_of_def config_0_def effective_max_def DefaultMaxSessions_def)
  have a: "New two_slots (Path (cfgs (state_of config_0) 0)) = Some 1"
    "Initialize two_slots 1 = None" "GetSlotList two_slots 1 True = Inr [0, 1]"
    by (simp_all add: two_slots_def)
  have f: "fst (findToken two_slots 1 [0, 1] (TokenSerial (cfgs (state_of config_0) 0))
             (TokenLabel (cfgs (state_of config_0) 0)) (state_of config_0)) = Inr (0, token_A)"
    by (simp only: conf two_slots_found_A)
  have r: "fst (Configure two_slots (Some 0) (state_of config_0)) = Returns (Inr context_0)"
    using Configure_found [OF a f]
    by (simp add: conf token_A_def two_slots_def build_pool_def context_0_def)
  from Configure_mutates_config [of two_slots 0 "state_of config_0"] r
  show ?thesis
    by (simp add: conf context_0_def)
qed

text \<open>
  C6. When \<^verbatim>\<open>Configure\<close> returns a context, its pool is the value the pool constructor
  returned for an initial capacity and a maximum capacity both equal to the configured
  maximum session count and for the configured idle timeout, and that constructor call is
  the last call \<^verbatim>\<open>Configure\<close> made.
\<close>

theorem Configure_pool_sizing:
  assumes "fst (Configure lib (Some p) s) = Returns (Inr cx)"
  shows "NewResourcePool lib (effective_max (cfgs s p)) (effective_max (cfgs s p))
           (IdleTimeout (cfgs s p)) = Some (pool cx)
       \<and> last (calls (snd (Configure lib (Some p) s))) =
           CallNewResourcePool (effective_max (cfgs s p)) (effective_max (cfgs s p))
             (IdleTimeout (cfgs s p))"
  using assms unfolding Configure_def
  by (auto simp: Let_def emit_def effective_max_def
           split: option.splits sum.splits prod.splits if_splits
           simp del: findToken.simps)

theorem Configure_pool_sizing_witness:
  "fst (Configure two_slots (Some 0) (state_of config_300)) =
     Returns (Inr (context_0\<lparr>pool := \<lparr>capacity = 300, maxCap = 300, idleTimeout = 30\<rparr>\<rparr>))
   \<and> NewResourcePool two_slots 300 300 30 =
       Some \<lparr>capacity = 300, maxCap = 300, idleTimeout = 30\<rparr>
   \<and> last (calls (snd (Configure two_slots (Some 0) (state_of config_300)))) =
       CallNewResourcePool 300 300 30"
proof -
  have conf: "cfgs (state_of config_300) 0 = config_300"
    "effective_max config_300 = 300" "IdleTimeout config_300 = 30"
    "TokenSerial config_300 = TokenSerial config_0" "TokenLabel config_300 = TokenLabel config_0"
    by (simp_all add: state_of_def config_300_def config_0_def effective_max_def)
  have a: "New two_slots (Path (cfgs (state_of config_300) 0)) = Some 1"
    "Initialize two_slots 1 = None" "GetSlotList two_slots 1 True = Inr [0, 1]"
    by (simp_all add: two_slots_def)
  have f: "fst (findToken two_slots 1 [0, 1] (TokenSerial (cfgs (state_of config_300) 0))
             (TokenLabel (cfgs (state_of config_300) 0)) (state_of config_300)) = Inr (0, token_A)"
    by (simp only: conf two_slots_found_A)
  have r: "fst (Configure two_slots (Some 0) (state_of config_300)) =
             Returns (Inr (context_0\<lparr>pool := \<lparr>capacity = 300, maxCap = 300,
                                                 idleTimeout = 30\<rparr>\<rparr>))"
    using Configure_found [OF a f]
    by (simp add: conf token_A_def two_slots_def build_pool_def context_0_def)
  from Configure_pool_sizing [OF r] r
  show ?thesis
    by (simp add: conf)
qed

text \<open>
  C7. With \<^verbatim>\<open>MaxSessions\<close> left at zero, \<^verbatim>\<open>Configure\<close> behaves in every respect as it
  does on the same configuration with \<^verbatim>\<open>MaxSessions\<close> set to 1024. In particular, once a
  token is selected, the comparison against the token's limit is made with 1024, and the pool
  constructor is called with 1024 for both capacities.
\<close>

theorem Configure_default_max_sessions:
  assumes "MaxSessions (cfgs s p) = 0"
  shows "Configure lib (Some p) s =
           Configure lib (Some p) (s\<lparr>cfgs := (cfgs s)(p := (cfgs s p)\<lparr>MaxSessions := 1024\<rparr>)\<rparr>)
       \<and> (\<forall>c slots sl tok.
            New lib (Path (cfgs s p)) = Some c \<longrightarrow>
            Initialize lib c = None \<longrightarrow>
            GetSlotList lib c True = Inr slots \<longrightarrow>
            fst (findToken lib c slots (TokenSerial (cfgs s p)) (TokenLabel (cfgs s p)) s)
              = Inr (sl, tok) \<longrightarrow>
            fst (Configure lib (Some p) s) =
              (if 0 < MaxRwSessionCount tok \<and> MaxRwSessionCount tok < 1024
               then Returns (Inl (Errorf session_limit_format
                      [1024, uint (MaxRwSessionCount tok)]))
               else (case NewResourcePool lib 1024 1024 (IdleTimeout (cfgs s p)) of
                       None \<Rightarrow> Panics PoolConstructorPanic
                     | Some pl \<Rightarrow> Returns (Inr \<lparr>ctx = c, cfg = p, token = tok, slot = sl,
                                                pool = pl\<rparr>))))"
proof (intro conjI allI impI)
  show "Configure lib (Some p) s =
          Configure lib (Some p) (s\<lparr>cfgs := (cfgs s)(p := (cfgs s p)\<lparr>MaxSessions := 1024\<rparr>)\<rparr>)"
    using assms by (simp add: Configure_def DefaultMaxSessions_def del: findToken.simps)
next
  fix c slots sl tok
  assume "New lib (Path (cfgs s p)) = Some c" "Initialize lib c = None"
    "GetSlotList lib c True = Inr slots"
    "fst (findToken lib c slots (TokenSerial (cfgs s p)) (TokenLabel (cfgs s p)) s)
       = Inr (sl, tok)"
  from Configure_found [OF this] assms
  show "fst (Configure lib (Some p) s) =
          (if 0 < MaxRwSessionCount tok \<and> MaxRwSessionCount tok < 1024
           then Returns (Inl (Errorf session_limit_format
                  [1024, uint (MaxRwSessionCount tok)]))
           else (case NewResourcePool lib 1024 1024 (IdleTimeout (cfgs s p)) of
                   None \<Rightarrow> Panics PoolConstructorPanic
                 | Some pl \<Rightarrow> Returns (Inr \<lparr>ctx = c, cfg = p, token = tok, slot = sl,
                                            pool = pl\<rparr>)))"
    by (simp add: effective_max_def DefaultMaxSessions_def)
qed

theorem Configure_default_max_sessions_witness:
  "MaxSessions (cfgs (state_of config_B) 0) = 0
   \<and> fst (Configure two_slots (Some 0) (state_of config_B)) =
       Returns (Inl (Errorf session_limit_format [1024, 1000]))
   \<and> MaxSessions (cfgs (state_of config_0) 0) = 0
   \<and> fst (Configure two_slots (Some 0) (state_of config_0)) = Returns (Inr context_0)
   \<and> pool context_0 = \<lparr>capacity = 1024, maxCap = 1024, idleTimeout = 30\<rparr>"
proof -
  have confB: "cfgs (state_of config_B) 0 = config_B"
    "TokenSerial config_B = ''B''" "TokenLabel config_B = []" "IdleTimeout config_B = 30"
    by (simp_all add: state_of_def config_B_def config_0_def)
  have conf0: "cfgs (state_of config_0) 0 = config_0" "IdleTimeout config_0 = 30"
    by (simp_all add: state_of_def config_0_def)
  have lib: "New two_slots path = Some 1" "Initialize two_slots 1 = None"
    "GetSlotList two_slots 1 True = Inr [0, 1]" for path
    by (simp_all add: two_slots_def)
  have mB: "MaxRwSessionCount token_B = 1000" and mA: "MaxRwSessionCount token_A = 0"
    by (simp_all add: token_B_def token_A_def)
  have zB: "MaxSessions (cfgs (state_of config_B) 0) = 0"
    by (simp add: state_of_def config_B_def config_0_def)
  have z0: "MaxSessions (cfgs (state_of config_0) 0) = 0"
    by (simp add: state_of_def config_0_def)
  have fB: "fst (findToken two_slots 1 [0, 1] (TokenSerial (cfgs (state_of config_B) 0))
              (TokenLabel (cfgs (state_of config_B) 0)) (state_of config_B)) = Inr (1, token_B)"
    by (simp only: confB two_slots_found_B)
  have f0: "fst (findToken two_slots 1 [0, 1] (TokenSerial (cfgs (state_of config_0) 0))
              (TokenLabel (cfgs (state_of config_0) 0)) (state_of config_0)) = Inr (0, token_A)"
    by (simp only: conf0 two_slots_found_A)
  note thB = Configure_default_max_sessions [OF zB, of two_slots, THEN conjunct2, rule_format,
               OF lib fB]
  note th0 = Configure_default_max_sessions [OF z0, of two_slots, THEN conjunct2, rule_format,
               OF lib f0]
  have "fst (Configure two_slots (Some 0) (state_of config_B)) =
          Returns (Inl (Errorf session_limit_format [1024, 1000]))"
    using thB by (simp add: mB)
  moreover
  have "fst (Configure two_slots (Some 0) (state_of config_0)) = Returns (Inr context_0)"
    using th0 by (simp add: mA conf0 two_slots_def build_pool_def context_0_def)
  ultimately show ?thesis
    using zB z0 by (simp add: context_0_def)
qed

text \<open>
  C3. Once a token is selected: when it advertises a maximum number of read-write sessions
  greater than zero and the configured maximum session count (1024 when left unset) exceeds
  it, \<^verbatim>\<open>Configure\<close> returns the session-limit error and no context; when it advertises
  zero, \<^verbatim>\<open>Configure\<close> goes on to construct the pool, and its result is that of the
  construction.
\<close>

theorem Configure_session_limit:
  assumes "New lib (Path (cfgs s p)) = Some c"
      and "Initialize lib c = None"
      and "GetSlotList lib c True = Inr slots"
      and "fst (findToken lib c slots (TokenSerial (cfgs s p)) (TokenLabel (cfgs s p)) s)
             = Inr (sl, tok)"
  shows "(0 < MaxRwSessionCount tok
            \<and> uint (MaxRwSessionCount tok) < sint (effective_max (cfgs s p)) \<longrightarrow>
          fst (Configure lib (Some p) s) =
            Returns (Inl (Errorf session_limit_format
              [sint (effective_max (cfgs s p)), uint (MaxRwSessionCount tok)])))
       \<and> (MaxRwSessionCount tok = 0 \<longrightarrow>
          fst (Configure lib (Some p) s) =
            (case NewResourcePool lib (effective_max (cfgs s p)) (effective_max (cfgs s p))
                    (IdleTimeout (cfgs s p)) of
               None \<Rightarrow> Panics PoolConstructorPanic
             | Some pl \<Rightarrow> Returns (Inr \<lparr>ctx = c, cfg = p, token = tok, slot = sl,
                                        pool = pl\<rparr>)))"
  using Configure_found [OF assms] by (auto dest: exceeds_unsigned)

theorem Configure_session_limit_witness:
  "New two_slots (Path (cfgs (state_of config_2000) 0)) = Some 1
   \<and> Initialize two_slots 1 = None
   \<and> GetSlotList two_slots 1 True = Inr [0, 1]
   \<and> fst (findToken two_slots 1 [0, 1] ''B'' [] (state_of config_2000)) = Inr (1, token_B)
   \<and> 0 < MaxRwSessionCount token_B
   \<and> uint (MaxRwSessionCount token_B) < sint (effective_max (cfgs (state_of config_2000) 0))
   \<and> fst (Configure two_slots (Some 0) (state_of config_2000)) =
       Returns (Inl (Errorf session_limit_format [2000, 1000]))"
proof -
  have conf: "cfgs (state_of config_2000) 0 = config_2000"
    "TokenSerial config_2000 = ''B''" "TokenLabel config_2000 = []"
    "effective_max config_2000 = 2000"
    by (simp_all add: state_of_def config_2000_def config_0_def effective_max_def)
  have a: "New two_slots (Path (cfgs (state_of config_2000) 0)) = Some 1"
    "Initialize two_slots 1 = None" "GetSlotList two_slots 1 True = Inr [0, 1]"
    by (simp_all add: two_slots_def)
  have f: "fst (findToken two_slots 1 [0, 1] (TokenSerial (cfgs (state_of config_2000) 0))
             (TokenLabel (cfgs (state_of config_2000) 0)) (state_of config_2000)) = Inr (1, token_B)"
    by (simp only: conf two_slots_found_B)
  have m: "MaxRwSessionCount token_B = 1000"
    by (simp add: token_B_def)
  from Configure_session_limit [OF a f] a f
  show ?thesis
    by (simp add: conf m)
qed

text \<open>
  C4, as stated, fails: the session-limit error is built by \<^verbatim>\<open>fmt.Errorf\<close> at the time of
  the failure, and an initialization failure is the error of the library itself; neither is
  one of the package's error variables.
\<close>

theorem session_limit_error_not_sentinel:
  "fst (Configure two_slots (Some 0) (state_of config_2000)) =
     Returns (Inl (Errorf session_limit_format [2000, 1000]))
   \<and> \<not> is_sentinel (Errorf session_limit_format [2000, 1000])
   \<and> fst (Configure failing_initialize (Some 0) (state_of config_0)) =
       Returns (Inl (Pkcs11Error 5))
   \<and> \<not> is_sentinel (Pkcs11Error 5)"
proof -
  have "fst (Configure failing_initialize (Some 0) (state_of config_0)) =
          Returns (Inl (Pkcs11Error 5))"
    by (simp add: Configure_def failing_initialize_def two_slots_def Let_def)
  then show ?thesis
    using Configure_2000_over_1000 by (simp add: is_sentinel_def sentinels_def)
qed

text \<open>
  C4, amended. \<^verbatim>\<open>Configure\<close> returns an error \<open>e\<close> in exactly these cases, each with the
  error it gives. The library cannot be opened: \<open>e\<close> is the package variable
  \<open>ErrCannotOpenPKCS11\<close>. \<^verbatim>\<open>Initialize\<close> fails on the opened library: \<open>e\<close> is its error, as
  it is. \<^verbatim>\<open>GetSlotList\<close> fails: \<open>e\<close> is its error, as it is. The token of every listed slot
  is read and none has the configured serial number or label: \<open>e\<close> is the package variable
  \<open>ErrTokenNotFound\<close>. \<^verbatim>\<open>GetTokenInfo\<close> fails on a listed slot before any slot matched:
  \<open>e\<close> is its error, as it is. The first matching token advertises a maximum number of
  read-write sessions above zero and below the configured maximum (1024 when unset; compared
  as unsigned): \<open>e\<close> is the error formatted from the configured maximum and the token's
  maximum, which is not a package variable.
\<close>

theorem Configure_errors:
  "fst (Configure lib (Some p) s) = Returns (Inl e) \<longleftrightarrow>
     (New lib (Path (cfgs s p)) = None \<and> e = ErrCannotOpenPKCS11 \<and> is_sentinel e)
   \<or> (\<exists>c. New lib (Path (cfgs s p)) = Some c \<and> Initialize lib c = Some e)
   \<or> (\<exists>c. New lib (Path (cfgs s p)) = Some c \<and> Initialize lib c = None
          \<and> GetSlotList lib c True = Inl e)
   \<or> (\<exists>c slots. New lib (Path (cfgs s p)) = Some c \<and> Initialize lib c = None
          \<and> GetSlotList lib c True = Inr slots
          \<and> (\<forall>y\<in>set slots. no_match lib c (TokenSerial (cfgs s p)) (TokenLabel (cfgs s p)) y)
          \<and> e = ErrTokenNotFound \<and> is_sentinel e)
   \<or> (\<exists>c pre x rest. New lib (Path (cfgs s p)) = Some c \<and> Initialize lib c = None
          \<and> GetSlotList lib c True = Inr (pre @ x # rest)
          \<and> (\<forall>y\<in>set pre. no_match lib c (TokenSerial (cfgs s p)) (TokenLabel (cfgs s p)) y)
          \<and> GetTokenInfo lib c x = Inl e)
   \<or> (\<exists>c pre x rest tok. New lib (Path (cfgs s p)) = Some c \<and> Initialize lib c = None
          \<and> GetSlotList lib c True = Inr (pre @ x # rest)
          \<and> (\<forall>y\<in>set pre. no_match lib c (TokenSerial (cfgs s p)) (TokenLabel (cfgs s p)) y)
          \<and> GetTokenInfo lib c x = Inr tok
          \<and> (SerialNumber tok = TokenSerial (cfgs s p) \<or> Label tok = TokenLabel (cfgs s p))
          \<and> 0 < MaxRwSessionCount tok
          \<and> MaxRwSessionCount tok < effective_max (cfgs s p)
          \<and> e = Errorf session_limit_format
                  [sint (effective_max (cfgs s p)), uint (MaxRwSessionCount tok)]
          \<and> \<not> is_sentinel e)"
  (is "?L \<longleftrightarrow> ?A \<or> ?B \<or> ?C \<or> ?D \<or> ?E \<or> ?F")
proof -
  let ?serial = "TokenSerial (cfgs s p)" and ?label = "TokenLabel (cfgs s p)"
  have sen: "is_sentinel ErrCannotOpenPKCS11" "is_sentinel ErrTokenNotFound"
    "\<And>f a. \<not> is_sentinel (Errorf f a)"
    by (simp_all add: is_sentinel_def sentinels_def)
  have drop3: "\<And>L A B C D. \<not> A \<Longrightarrow> \<not> B \<Longrightarrow> \<not> C \<Longrightarrow> (L \<longleftrightarrow> D) \<Longrightarrow> (L \<longleftrightarrow> A \<or> B \<or> C \<or> D)"
    by blast
  show ?thesis
  proof (cases "New lib (Path (cfgs s p))")
    case None
    then show ?thesis by (auto simp: Configure_fst sen)
  next
    case (Some c)
    note new = this
    show ?thesis
    proof (cases "Initialize lib c")
      case (Some err)
      with new show ?thesis by (auto simp: Configure_fst)
    next
      case None
      note init = this
      show ?thesis
      proof (cases "GetSlotList lib c True")
        case (Inl err)
        with new init show ?thesis by (auto simp: Configure_fst)
      next
        case (Inr slots)
        note gsl = this
        have notABC: "\<not> ?A" "\<not> ?B" "\<not> ?C"
          using new init gsl by simp_all
        have L: "?L \<longleftrightarrow>
          (case fst (findToken lib c slots ?serial ?label s) of
             Inl err \<Rightarrow> err = e
           | Inr (sl, tok) \<Rightarrow>
               0 < MaxRwSessionCount tok \<and> MaxRwSessionCount tok < effective_max (cfgs s p)
               \<and> e = Errorf session_limit_format
                      [sint (effective_max (cfgs s p)), uint (MaxRwSessionCount tok)])"
          using new init gsl
          by (auto simp: Configure_fst split: sum.splits option.splits)
        have D: "?D \<longleftrightarrow> (\<forall>y\<in>set slots. no_match lib c ?serial ?label y) \<and> e = ErrTokenNotFound"
          using new init gsl by (simp add: sen cong: conj_cong)
        have E: "?E \<longleftrightarrow> (\<exists>pre x rest. slots = pre @ x # rest
                   \<and> (\<forall>y\<in>set pre. no_match lib c ?serial ?label y)
                   \<and> GetTokenInfo lib c x = Inl e)"
          using new init gsl by simp
        have F: "?F \<longleftrightarrow> (\<exists>pre x rest tok. slots = pre @ x # rest
                   \<and> (\<forall>y\<in>set pre. no_match lib c ?serial ?label y)
                   \<and> GetTokenInfo lib c x = Inr tok
                   \<and> (SerialNumber tok = ?serial \<or> Label tok = ?label)
                   \<and> 0 < MaxRwSessionCount tok
                   \<and> MaxRwSessionCount tok < effective_max (cfgs s p)
                   \<and> e = Errorf session_limit_format
                          [sint (effective_max (cfgs s p)), uint (MaxRwSessionCount tok)])"
          using new init gsl by (simp add: sen cong: conj_cong)
        have "?L \<longleftrightarrow> ?D \<or> ?E \<or> ?F"
        proof
          assume l: ?L
          show "?D \<or> ?E \<or> ?F"
          proof (cases "fst (findToken lib c slots ?serial ?label s)")
            case (Inl err)
            with l L have "err = e" by simp
            with Inl findToken_Inl_cases [of lib c slots ?serial ?label s e]
            show ?thesis unfolding D E by blast
          next
            case (Inr found)
            obtain sl tok where f: "found = (sl, tok)" by (cases found)
            with Inr l L have lim: "0 < MaxRwSessionCount tok"
              "MaxRwSessionCount tok < effective_max (cfgs s p)"
              "e = Errorf session_limit_format
                      [sint (effective_max (cfgs s p)), uint (MaxRwSessionCount tok)]"
              by simp_all
            from Inr f findToken_Inr_cases [of lib c slots ?serial ?label s sl tok]
            obtain pre rest where "slots = pre @ sl # rest"
              "\<forall>y\<in>set pre. no_match lib c ?serial ?label y" "GetTokenInfo lib c sl = Inr tok"
              "SerialNumber tok = ?serial \<or> Label tok = ?label"
              by auto
            with lim have ?F unfolding F by blast
            then show ?thesis by simp
          qed
        next
          assume "?D \<or> ?E \<or> ?F"
          then consider (d) ?D | (e) ?E | (f) ?F by blast
          then show ?L
          proof cases
            case d
            then have "\<forall>y\<in>set slots. no_match lib c ?serial ?label y" "e = ErrTokenNotFound"
              unfolding D by simp_all
            then show ?thesis
              unfolding L by (simp add: findToken_miss)
          next
            case e
            then obtain pre x rest where "slots = pre @ x # rest"
              "\<forall>y\<in>set pre. no_match lib c ?serial ?label y" "GetTokenInfo lib c x = Inl e"
              unfolding E by blast
            then show ?thesis
              unfolding L by (simp add: findToken_err)
          next
            case f
            then obtain pre x rest tok where "slots = pre @ x # rest"
              "\<forall>y\<in>set pre. no_match lib c ?serial ?label y" "GetTokenInfo lib c x = Inr tok"
              "SerialNumber tok = ?serial \<or> Label tok = ?label"
              "0 < MaxRwSessionCount tok" "MaxRwSessionCount tok < effective_max (cfgs s p)"
              "e = Errorf session_limit_format
                      [sint (effective_max (cfgs s p)), uint (MaxRwSessionCount tok)]"
              unfolding F by blast
            then show ?thesis
              unfolding L by (simp add: findToken_hit)
          qed
        qed
        then show ?thesis by (rule drop3 [OF notABC])
      qed
    qed
  qed
qed


theorem Configure_errors_witness:
  "New two_slots (Path config_2000) = Some 1
   \<and> Initialize two_slots 1 = None
   \<and> GetSlotList two_slots 1 True = Inr ([0] @ 1 # [])
   \<and> no_match two_slots 1 ''B'' [] 0
   \<and> GetTokenInfo two_slots 1 1 = Inr token_B
   \<and> SerialNumber token_B = ''B''
   \<and> 0 < MaxRwSessionCount token_B
   \<and> MaxRwSessionCount token_B < effective_max config_2000
   \<and> fst (Configure two_slots (Some 0) (state_of config_2000)) =
       Returns (Inl (Errorf session_limit_format [2000, 1000]))
   \<and> no_match two_slots 1 ''Z'' ''z'' 0
   \<and> no_match two_slots 1 ''Z'' ''z'' 1
   \<and> fst (Configure two_slots (Some 0) (state_of config_Z)) = Returns (Inl ErrTokenNotFound)
   \<and> New failing_initialize (Path config_0) = Some 1
   \<and> Initialize failing_initialize 1 = Some (Pkcs11Error 5)
   \<and> fst (Configure failing_initialize (Some 0) (state_of config_0)) =
       Returns (Inl (Pkcs11Error 5))"
proof -
  let ?s = "state_of config_2000" and ?z = "state_of config_Z" and ?i = "state_of config_0"
  let ?e = "Errorf session_limit_format [2000, 1000]"
  have conf: "cfgs ?s 0 = config_2000" "cfgs ?z 0 = config_Z" "cfgs ?i 0 = config_0"
    by (simp_all add: state_of_def)
  have c2000: "TokenSerial config_2000 = ''B''" "TokenLabel config_2000 = []"
    "effective_max config_2000 = 2000"
    by (simp_all add: config_2000_def config_0_def effective_max_def)
  have cZ: "TokenSerial config_Z = ''Z''" "TokenLabel config_Z = ''z''"
    by (simp_all add: config_Z_def config_0_def)
  have lib: "New two_slots path = Some 1" "Initialize two_slots c = None"
    "GetSlotList two_slots c True = Inr [0, 1]"
    "GetTokenInfo two_slots c 1 = Inr token_B" for path c
    by (simp_all add: two_slots_def)
  have tok: "SerialNumber token_B = ''B''" "MaxRwSessionCount token_B = 1000"
    by (simp_all add: token_B_def)
  have nm: "no_match two_slots c ''B'' [] 0"
    "no_match two_slots c ''Z'' ''z'' 0" "no_match two_slots c ''Z'' ''z'' 1" for c
    by (simp_all add: no_match_def two_slots_def token_A_def token_B_def)
  have ini: "New failing_initialize path = Some 1"
    "Initialize failing_initialize c = Some (Pkcs11Error 5)" for path c
    by (simp_all add: failing_initialize_def two_slots_def)
  have "\<exists>c pre x rest tok. New two_slots (Path (cfgs ?s 0)) = Some c
          \<and> Initialize two_slots c = None
          \<and> GetSlotList two_slots c True = Inr (pre @ x # rest)
          \<and> (\<forall>y\<in>set pre. no_match two_slots c (TokenSerial (cfgs ?s 0)) (TokenLabel (cfgs ?s 0)) y)
          \<and> GetTokenInfo two_slots c x = Inr tok
          \<and> (SerialNumber tok = TokenSerial (cfgs ?s 0) \<or> Label tok = TokenLabel (cfgs ?s 0))
          \<and> 0 < MaxRwSessionCount tok
          \<and> MaxRwSessionCount tok < effective_max (cfgs ?s 0)
          \<and> ?e = Errorf session_limit_format
                  [sint (effective_max (cfgs ?s 0)), uint (MaxRwSessionCount tok)]
          \<and> \<not> is_sentinel ?e"
    by (rule exI [of _ 1], rule exI [of _ "[0]"], rule exI [of _ 1], rule exI [of _ "[]"],
        rule exI [of _ token_B])
       (simp add: conf c2000 lib tok nm is_sentinel_def sentinels_def)
  then have one: "fst (Configure two_slots (Some 0) ?s) = Returns (Inl ?e)"
    by (simp only: Configure_errors [of two_slots 0 ?s ?e] simp_thms)
  have "\<exists>c slots. New two_slots (Path (cfgs ?z 0)) = Some c \<and> Initialize two_slots c = None
          \<and> GetSlotList two_slots c True = Inr slots
          \<and> (\<forall>y\<in>set slots. no_match two_slots c (TokenSerial (cfgs ?z 0)) (TokenLabel (cfgs ?z 0)) y)
          \<and> ErrTokenNotFound = ErrTokenNotFound \<and> is_sentinel ErrTokenNotFound"
    by (rule exI [of _ 1], rule exI [of _ "[0, 1]"])
       (simp add: conf cZ lib nm is_sentinel_def sentinels_def)
  then have two: "fst (Configure two_slots (Some 0) ?z) = Returns (Inl ErrTokenNotFound)"
    by (simp only: Configure_errors [of two_slots 0 ?z ErrTokenNotFound] simp_thms)
  have "\<exists>c. New failing_initialize (Path (cfgs ?i 0)) = Some c
          \<and> Initialize failing_initialize c = Some (Pkcs11Error 5)"
    by (rule exI [of _ 1]) (simp add: ini)
  then have three: "fst (Configure failing_initialize (Some 0) ?i) = Returns (Inl (Pkcs11Error 5))"
    by (simp only: Configure_errors [of failing_initialize 0 ?i "Pkcs11Error 5"] simp_thms)
  show ?thesis
    using one two three by (simp add: lib ini tok nm c2000)
qed

end
